theory Spec2Isabelle
  imports Complex_Main
begin

section \<open>Arrays and Python errors\<close>

text \<open>
  The operations of \<open>src/library/base.py\<close>: \<open>assert_same_shape\<close>, the base classes
  \<open>Operation\<close> and \<open>ParamOperation\<close>, and the concrete operations \<open>WeightMultiply\<close>,
  \<open>BiasAdd\<close>, \<open>Sigmoid\<close> and \<open>Linear\<close>. \<open>src/fundamentals/library/operations.py\<close>
  repeats the two base classes; its \<open>ParamOperation.__init__\<close> has the same body, its
  \<open>backward\<close> methods call an \<open>assert_same_shape\<close> that file neither defines nor
  imports, and they are not modelled here.

  An \<open>ndarray\<close> is a shape together with its elements in row-major order. The
  elements are modelled as real numbers: the rounding of floating-point arithmetic is
  abstracted away, the shapes and the control flow are not.
\<close>

record ndarray =
  shape :: "nat list"
  data :: "real list"

definition size_of :: "nat list \<Rightarrow> nat" where
  "size_of sh = prod_list sh"

text \<open>
  The exceptions the code can raise. \<open>AttributeError n\<close> carries the name of the missing
  attribute. \<open>AssertionError (Some (s1, s2))\<close> is the assertion of \<open>assert_same_shape\<close>,
  whose message is formatted with the two shapes; \<open>AssertionError None\<close> is a bare
  \<open>assert\<close> without a message.
\<close>

datatype error =
    AttributeError string
  | AssertionError "(nat list \<times> nat list) option"
  | NotImplementedError
  | ValueError
  | IndexError
  | TypeError

text \<open>
  The error classes of the specification: a ShapeMismatch is the assertion raised by
  \<open>assert_same_shape\<close>, an InvariantViolation the bare assertion of a constructor.
\<close>

definition ShapeMismatch :: "nat list \<Rightarrow> nat list \<Rightarrow> error" where
  "ShapeMismatch s1 s2 = AssertionError (Some (s1, s2))"

definition InvariantViolation :: error where
  "InvariantViolation = AssertionError None"

section \<open>The numpy operations the code calls\<close>

definition chunks :: "nat \<Rightarrow> nat \<Rightarrow> 'a list \<Rightarrow> 'a list list" where
  "chunks k n xs = map (\<lambda>i. take n (drop (i * n) xs)) [0..<k]"

text \<open>Broadcasting of two shapes, aligned at the last axis (here: on reversed shapes).\<close>

fun broadcast_rev :: "nat list \<Rightarrow> nat list \<Rightarrow> nat list option" where
  "broadcast_rev [] ys = Some ys"
| "broadcast_rev xs [] = Some xs"
| "broadcast_rev (x # xs) (y # ys) =
     (if x = y \<or> y = 1 then map_option ((#) x) (broadcast_rev xs ys)
      else if x = 1 then map_option ((#) y) (broadcast_rev xs ys)
      else None)"

definition broadcast_shapes :: "nat list \<Rightarrow> nat list \<Rightarrow> nat list option" where
  "broadcast_shapes s1 s2 = map_option rev (broadcast_rev (rev s1) (rev s2))"

text \<open>
  \<open>expand src tgt xs\<close> repeats the elements \<open>xs\<close> of an array of shape \<open>src\<close> (already
  padded with leading ones to the length of \<open>tgt\<close>) to the shape \<open>tgt\<close>.
\<close>

fun expand :: "nat list \<Rightarrow> nat list \<Rightarrow> real list \<Rightarrow> real list" where
  "expand (e # es) (d # ds) xs =
     (if e = d then concat (map (expand es ds) (chunks e (size_of es) xs))
      else concat (replicate d (expand es ds xs)))"
| "expand _ _ xs = xs"

definition broadcast_to :: "nat list \<Rightarrow> ndarray \<Rightarrow> real list" where
  "broadcast_to tgt a =
     expand (replicate (length tgt - length (shape a)) 1 @ shape a) tgt (data a)"

definition elementwise :: "(real \<Rightarrow> real \<Rightarrow> real) \<Rightarrow> ndarray \<Rightarrow> ndarray \<Rightarrow> error + ndarray" where
  "elementwise f a b =
     (case broadcast_shapes (shape a) (shape b) of
        None \<Rightarrow> Inl ValueError
      | Some tgt \<Rightarrow>
          Inr \<lparr>shape = tgt, data = map2 f (broadcast_to tgt a) (broadcast_to tgt b)\<rparr>)"

definition np_add :: "ndarray \<Rightarrow> ndarray \<Rightarrow> error + ndarray" where
  "np_add = elementwise (+)"

definition np_multiply :: "ndarray \<Rightarrow> ndarray \<Rightarrow> error + ndarray" where
  "np_multiply = elementwise (*)"

text \<open>A Python float combined with an array: the operation is applied to every element.\<close>

definition scalar_op :: "(real \<Rightarrow> real \<Rightarrow> real) \<Rightarrow> real \<Rightarrow> ndarray \<Rightarrow> ndarray" where
  "scalar_op f c a = a\<lparr>data := map (f c) (data a)\<rparr>"

definition np_exp :: "ndarray \<Rightarrow> ndarray" where
  "np_exp a = a\<lparr>data := map exp (data a)\<rparr>"

definition np_ones_like :: "ndarray \<Rightarrow> ndarray" where
  "np_ones_like a = \<lparr>shape = shape a, data = replicate (size_of (shape a)) 1\<rparr>"

text \<open>\<open>np.transpose(a, (1, 0))\<close>: the axes must match the array, which must be 2-D.\<close>

definition np_transpose10 :: "ndarray \<Rightarrow> error + ndarray" where
  "np_transpose10 a =
     (case shape a of
        [r, c] \<Rightarrow>
          Inr \<lparr>shape = [c, r],
               data = concat (map (\<lambda>j. map (\<lambda>i. data a ! (i * c + j)) [0..<r]) [0..<c])\<rparr>
      | _ \<Rightarrow> Inl ValueError)"

definition columns :: "nat \<Rightarrow> nat \<Rightarrow> real list \<Rightarrow> real list list" where
  "columns n m mat = map (\<lambda>j. map (\<lambda>t. mat ! (t * m + j)) [0..<n]) [0..<m]"

definition inner :: "real list \<Rightarrow> real list \<Rightarrow> real" where
  "inner xs ys = sum_list (map2 (*) xs ys)"

text \<open>
  \<open>np.dot(a, b)\<close>: a product with a 0-d array is elementwise multiplication; otherwise
  the sum runs over the last axis of \<open>a\<close> and the second-to-last axis of \<open>b\<close> (the only
  axis of a 1-D \<open>b\<close>), and the two lengths must agree.
\<close>

definition np_dot :: "ndarray \<Rightarrow> ndarray \<Rightarrow> error + ndarray" where
  "np_dot a b =
     (if shape a = [] \<or> shape b = [] then np_multiply a b
      else
        let n = last (shape a);
            lead = butlast (shape a);
            one_d = (length (shape b) = 1);
            kb = (if one_d then hd (shape b) else shape b ! (length (shape b) - 2));
            batch = (if one_d then [] else take (length (shape b) - 2) (shape b));
            m = (if one_d then 1 else last (shape b))
        in if n \<noteq> kb then Inl ValueError
           else
             Inr \<lparr>shape = lead @ batch @ (if one_d then [] else [m]),
                  data = concat (map (\<lambda>row.
                           concat (map (\<lambda>mat. map (inner row) (columns n m mat))
                                       (chunks (size_of batch) (n * m) (data b))))
                           (chunks (size_of lead) n (data a)))\<rparr>)"

text \<open>
  \<open>np.sum(a, axis=0)\<close>: the first axis is summed away. numpy accepts \<open>axis=0\<close> on a
  0-d array as well and returns its single value.
\<close>

definition np_sum_axis0 :: "ndarray \<Rightarrow> ndarray" where
  "np_sum_axis0 a =
     (case shape a of
        [] \<Rightarrow> a
      | d # ds \<Rightarrow>
          \<lparr>shape = ds,
           data = foldr (map2 (+)) (chunks d (size_of ds) (data a))
                        (replicate (size_of ds) 0)\<rparr>)"

text \<open>\<open>a.reshape(r, c)\<close>: the number of elements must not change.\<close>

definition reshape2 :: "ndarray \<Rightarrow> nat \<Rightarrow> nat \<Rightarrow> error + ndarray" where
  "reshape2 a r c =
     (if size_of (shape a) = r * c then Inr \<lparr>shape = [r, c], data = data a\<rparr>
      else Inl ValueError)"

text \<open>\<open>a.shape[i]\<close> for a non-negative index.\<close>

definition shape_at :: "ndarray \<Rightarrow> nat \<Rightarrow> error + nat" where
  "shape_at a i = (if i < length (shape a) then Inr (shape a ! i) else Inl IndexError)"

section \<open>Objects, attribute lookup and the shape assertion\<close>

text \<open>
  A Python object is its attribute dictionary. All attributes the code stores are arrays.
  Reading an attribute that was never assigned raises \<open>AttributeError\<close>.
\<close>

type_synonym obj = "string \<rightharpoonup> ndarray"

definition getattr :: "obj \<Rightarrow> string \<Rightarrow> error + ndarray" where
  "getattr self name = (case self name of None \<Rightarrow> Inl (AttributeError name) | Some v \<Rightarrow> Inr v)"

text \<open>
  \<open>assert_same_shape(array, array_grad)\<close>. The message names the shape of \<open>array_grad\<close>
  first and the shape of \<open>array\<close> second, as the source's \<open>format\<close> call does.
\<close>

definition assert_same_shape :: "ndarray \<Rightarrow> ndarray \<Rightarrow> error + unit" where
  "assert_same_shape array array_grad =
     (if shape array = shape array_grad then Inr ()
      else Inl (AssertionError (Some (shape array_grad, shape array))))"

section \<open>The classes\<close>

datatype cls = Operation | ParamOperation | WeightMultiply | BiasAdd | Sigmoid | Linear

subsection \<open>Hooks of the concrete operations\<close>

definition WeightMultiply_output :: "obj \<Rightarrow> error + ndarray" where
  "WeightMultiply_output self =
     (case getattr self ''input_'' of Inl e \<Rightarrow> Inl e | Inr x \<Rightarrow>
      case getattr self ''param'' of Inl e \<Rightarrow> Inl e | Inr w \<Rightarrow>
      np_dot x w)"

definition WeightMultiply_input_grad :: "obj \<Rightarrow> ndarray \<Rightarrow> error + ndarray" where
  "WeightMultiply_input_grad self output_grad =
     (case getattr self ''param'' of Inl e \<Rightarrow> Inl e | Inr w \<Rightarrow>
      case np_transpose10 w of Inl e \<Rightarrow> Inl e | Inr wt \<Rightarrow>
      np_dot output_grad wt)"

definition WeightMultiply_param_grad :: "obj \<Rightarrow> ndarray \<Rightarrow> error + ndarray" where
  "WeightMultiply_param_grad self output_grad =
     (case getattr self ''input_'' of Inl e \<Rightarrow> Inl e | Inr x \<Rightarrow>
      case np_transpose10 x of Inl e \<Rightarrow> Inl e | Inr xt \<Rightarrow>
      np_dot xt output_grad)"

definition BiasAdd_output :: "obj \<Rightarrow> error + ndarray" where
  "BiasAdd_output self =
     (case getattr self ''input_'' of Inl e \<Rightarrow> Inl e | Inr x \<Rightarrow>
      case getattr self ''param'' of Inl e \<Rightarrow> Inl e | Inr b \<Rightarrow>
      np_add x b)"

definition BiasAdd_input_grad :: "obj \<Rightarrow> ndarray \<Rightarrow> error + ndarray" where
  "BiasAdd_input_grad self output_grad =
     (case getattr self ''input_'' of Inl e \<Rightarrow> Inl e | Inr x \<Rightarrow>
      np_multiply (np_ones_like x) output_grad)"

definition BiasAdd_param_grad :: "obj \<Rightarrow> ndarray \<Rightarrow> error + ndarray" where
  "BiasAdd_param_grad self output_grad =
     (case getattr self ''param'' of Inl e \<Rightarrow> Inl e | Inr b \<Rightarrow>
      case np_multiply (np_ones_like b) output_grad of Inl e \<Rightarrow> Inl e | Inr param_grad \<Rightarrow>
      let summed = np_sum_axis0 param_grad in
      case shape_at param_grad 1 of Inl e \<Rightarrow> Inl e | Inr n \<Rightarrow>
      reshape2 summed 1 n)"

definition Sigmoid_output :: "obj \<Rightarrow> error + ndarray" where
  "Sigmoid_output self =
     (case getattr self ''input_'' of Inl e \<Rightarrow> Inl e | Inr x \<Rightarrow>
      Inr (scalar_op (/) 1 (scalar_op (+) 1 (np_exp (scalar_op (*) (- 1) x)))))"

definition Sigmoid_input_grad :: "obj \<Rightarrow> ndarray \<Rightarrow> error + ndarray" where
  "Sigmoid_input_grad self output_grad =
     (case getattr self ''output'' of Inl e \<Rightarrow> Inl e | Inr out \<Rightarrow>
      case np_multiply out (scalar_op (-) 1 out) of Inl e \<Rightarrow> Inl e | Inr sigmoid_backward \<Rightarrow>
      np_multiply sigmoid_backward output_grad)"

definition Linear_output :: "obj \<Rightarrow> error + ndarray" where
  "Linear_output self = getattr self ''input_''"

definition Linear_input_grad :: "obj \<Rightarrow> ndarray \<Rightarrow> error + ndarray" where
  "Linear_input_grad self output_grad = Inr output_grad"

subsection \<open>Method resolution\<close>

text \<open>
  \<open>self._output()\<close>, \<open>self._input_grad(g)\<close> and \<open>self._param_grad(g)\<close> resolve in the class
  of the object first and in its base classes next. The base classes raise
  \<open>NotImplementedError\<close>; a class outside \<open>ParamOperation\<close> has no \<open>_param_grad\<close> at all.
\<close>

fun output_hook :: "cls \<Rightarrow> obj \<Rightarrow> error + ndarray" where
  "output_hook WeightMultiply self = WeightMultiply_output self"
| "output_hook BiasAdd self = BiasAdd_output self"
| "output_hook Sigmoid self = Sigmoid_output self"
| "output_hook Linear self = Linear_output self"
| "output_hook Operation self = Inl NotImplementedError"
| "output_hook ParamOperation self = Inl NotImplementedError"

fun input_grad_hook :: "cls \<Rightarrow> obj \<Rightarrow> ndarray \<Rightarrow> error + ndarray" where
  "input_grad_hook WeightMultiply self g = WeightMultiply_input_grad self g"
| "input_grad_hook BiasAdd self g = BiasAdd_input_grad self g"
| "input_grad_hook Sigmoid self g = Sigmoid_input_grad self g"
| "input_grad_hook Linear self g = Linear_input_grad self g"
| "input_grad_hook Operation self g = Inl NotImplementedError"
| "input_grad_hook ParamOperation self g = Inl NotImplementedError"

fun param_grad_hook :: "cls \<Rightarrow> obj \<Rightarrow> ndarray \<Rightarrow> error + ndarray" where
  "param_grad_hook WeightMultiply self g = WeightMultiply_param_grad self g"
| "param_grad_hook BiasAdd self g = BiasAdd_param_grad self g"
| "param_grad_hook ParamOperation self g = Inl NotImplementedError"
| "param_grad_hook _ self g = Inl (AttributeError ''_param_grad'')"

fun is_ParamOperation :: "cls \<Rightarrow> bool" where
  "is_ParamOperation ParamOperation = True"
| "is_ParamOperation WeightMultiply = True"
| "is_ParamOperation BiasAdd = True"
| "is_ParamOperation _ = False"

fun concrete :: "cls \<Rightarrow> bool" where
  "concrete Operation = False"
| "concrete ParamOperation = False"
| "concrete _ = True"

subsection \<open>forward and backward\<close>

text \<open>
  A method returns its result (or the exception it raised) together with the object as
  the call left it: an assignment made before an exception stays made.
\<close>

definition forward :: "cls \<Rightarrow> obj \<Rightarrow> ndarray \<Rightarrow> (error + ndarray) \<times> obj" where
  "forward c self inp =
     (let s1 = self(''input'' \<mapsto> inp) in
      case output_hook c s1 of
        Inl e \<Rightarrow> (Inl e, s1)
      | Inr out \<Rightarrow> (Inr out, s1(''output'' \<mapsto> out)))"

definition Operation_backward :: "cls \<Rightarrow> obj \<Rightarrow> ndarray \<Rightarrow> (error + ndarray) \<times> obj" where
  "Operation_backward c self output_grad =
     (case getattr self ''output'' of Inl e \<Rightarrow> (Inl e, self) | Inr out \<Rightarrow>
      case assert_same_shape out output_grad of Inl e \<Rightarrow> (Inl e, self) | Inr _ \<Rightarrow>
      case input_grad_hook c self output_grad of Inl e \<Rightarrow> (Inl e, self) | Inr ig \<Rightarrow>
      let s1 = self(''input_grad'' \<mapsto> ig) in
      case getattr s1 ''input'' of Inl e \<Rightarrow> (Inl e, s1) | Inr inp \<Rightarrow>
      case getattr s1 ''input_grad'' of Inl e \<Rightarrow> (Inl e, s1) | Inr ig' \<Rightarrow>
      case assert_same_shape inp ig' of Inl e \<Rightarrow> (Inl e, s1) | Inr _ \<Rightarrow>
      case getattr s1 ''input_grad'' of Inl e \<Rightarrow> (Inl e, s1) | Inr r \<Rightarrow> (Inr r, s1))"

definition ParamOperation_backward :: "cls \<Rightarrow> obj \<Rightarrow> ndarray \<Rightarrow> (error + ndarray) \<times> obj" where
  "ParamOperation_backward c self output_grad =
     (case getattr self ''output'' of Inl e \<Rightarrow> (Inl e, self) | Inr out \<Rightarrow>
      case assert_same_shape out output_grad of Inl e \<Rightarrow> (Inl e, self) | Inr _ \<Rightarrow>
      case input_grad_hook c self output_grad of Inl e \<Rightarrow> (Inl e, self) | Inr ig \<Rightarrow>
      let s1 = self(''input_grad'' \<mapsto> ig) in
      case param_grad_hook c s1 output_grad of Inl e \<Rightarrow> (Inl e, s1) | Inr pg \<Rightarrow>
      let s2 = s1(''param_grad'' \<mapsto> pg) in
      case getattr s2 ''input_grad'' of Inl e \<Rightarrow> (Inl e, s2) | Inr r \<Rightarrow> (Inr r, s2))"

definition backward :: "cls \<Rightarrow> obj \<Rightarrow> ndarray \<Rightarrow> (error + ndarray) \<times> obj" where
  "backward c self output_grad =
     (if is_ParamOperation c then ParamOperation_backward c self output_grad
      else Operation_backward c self output_grad)"

subsection \<open>Construction\<close>

text \<open>
  The attributes \<open>super()\<close> can find from inside \<open>ParamOperation\<close>: those that class
  \<open>Operation\<close> defines, then those of \<open>object\<close>.
\<close>

definition Operation_attrs :: "string list" where
  "Operation_attrs = [''__init__'', ''forward'', ''backward'', ''_output'', ''_input_grad'']"

definition object_attrs :: "string list" where
  "object_attrs =
     [''__class__'', ''__delattr__'', ''__dict__'', ''__dir__'', ''__doc__'', ''__eq__'',
      ''__format__'', ''__ge__'', ''__getattribute__'', ''__getstate__'', ''__gt__'',
      ''__hash__'', ''__init__'', ''__init_subclass__'', ''__le__'', ''__lt__'',
      ''__module__'', ''__ne__'', ''__new__'', ''__reduce__'', ''__reduce_ex__'',
      ''__repr__'', ''__setattr__'', ''__sizeof__'', ''__str__'', ''__subclasshook__'',
      ''__weakref__'']"

definition super_getattr :: "string \<Rightarrow> error + unit" where
  "super_getattr name =
     (if name \<in> set (Operation_attrs @ object_attrs) then Inr ()
      else Inl (AttributeError name))"

definition Operation_init :: "obj \<Rightarrow> error + obj" where
  "Operation_init self = Inr self"

text \<open>
  Private name mangling: inside a class body an identifier that begins with two
  underscores and does not end with two is replaced by \<open>_Class\<close> followed by the
  identifier, the class name without its leading underscores (no replacement when the
  class name has nothing else).
\<close>

definition mangle :: "string \<Rightarrow> string \<Rightarrow> string" where
  "mangle cname ident =
     (let stripped = dropWhile (\<lambda>ch. ch = CHR ''_'') cname in
      if take 2 ident = ''__'' \<and> take 2 (rev ident) \<noteq> ''__'' \<and> stripped \<noteq> []
      then ''_'' @ stripped @ ident
      else ident)"

text \<open>
  \<open>ParamOperation.__init__\<close> looks up \<open>__init_\<close> (one underscore at the end, hence
  mangled) through \<open>super()\<close> and assigns \<open>self.param\<close> only after that call.
\<close>

definition ParamOperation_init :: "obj \<Rightarrow> ndarray \<Rightarrow> error + obj" where
  "ParamOperation_init self param =
     (case super_getattr (mangle ''ParamOperation'' ''__init_'') of Inl e \<Rightarrow> Inl e | Inr _ \<Rightarrow>
      Inr (self(''param'' \<mapsto> param)))"

definition WeightMultiply_init :: "obj \<Rightarrow> ndarray \<Rightarrow> error + obj" where
  "WeightMultiply_init self W = ParamOperation_init self W"

definition BiasAdd_init :: "obj \<Rightarrow> ndarray \<Rightarrow> error + obj" where
  "BiasAdd_init self B =
     (case shape_at B 0 of Inl e \<Rightarrow> Inl e | Inr d \<Rightarrow>
      if d = 1 then ParamOperation_init self B else Inl (AssertionError None))"

definition Sigmoid_init :: "obj \<Rightarrow> error + obj" where
  "Sigmoid_init self = Operation_init self"

definition Linear_init :: "obj \<Rightarrow> error + obj" where
  "Linear_init self = Operation_init self"

text \<open>
  \<open>C(args)\<close> creates an object without attributes and runs \<open>__init__\<close> on it; the
  expression yields the object only if \<open>__init__\<close> returns. A wrong number of arguments
  is a \<open>TypeError\<close>.
\<close>

fun construct :: "cls \<Rightarrow> ndarray list \<Rightarrow> error + obj" where
  "construct Operation [] = Operation_init Map.empty"
| "construct Sigmoid [] = Sigmoid_init Map.empty"
| "construct Linear [] = Linear_init Map.empty"
| "construct ParamOperation [p] = ParamOperation_init Map.empty p"
| "construct WeightMultiply [W] = WeightMultiply_init Map.empty W"
| "construct BiasAdd [B] = BiasAdd_init Map.empty B"
| "construct _ _ = Inl TypeError"

text \<open>
  The objects a program can obtain through the classes' own interface: a constructor
  call that returned, followed by any number of \<open>forward\<close> and \<open>backward\<close> calls.
\<close>

inductive reachable :: "cls \<Rightarrow> obj \<Rightarrow> bool" where
  constructed: "construct c args = Inr s \<Longrightarrow> reachable c s"
| after_forward: "reachable c s \<Longrightarrow> reachable c (snd (forward c s x))"
| after_backward: "reachable c s \<Longrightarrow> reachable c (snd (backward c s g))"

section \<open>Basic facts about attribute lookup and the cached state\<close>

lemma getattr_Some: "self name = Some v \<Longrightarrow> getattr self name = Inr v"
  by (simp add: getattr_def)

lemma getattr_None: "self name = None \<Longrightarrow> getattr self name = Inl (AttributeError name)"
  by (simp add: getattr_def)

lemma output_hook_unset:
  "concrete c \<Longrightarrow> s ''input_'' = None \<Longrightarrow> output_hook c s = Inl (AttributeError ''input_'')"
  by (cases c)
     (simp_all add: WeightMultiply_output_def BiasAdd_output_def Sigmoid_output_def
        Linear_output_def getattr_None)

text \<open>No method assigns the attribute \<open>input_\<close>.\<close>

lemma forward_keeps_input_: "snd (forward c s x) ''input_'' = s ''input_''"
  by (simp add: forward_def Let_def split: sum.splits)

lemma Operation_backward_keeps_input_: "snd (Operation_backward c s g) ''input_'' = s ''input_''"
  by (simp add: Operation_backward_def Let_def split: sum.splits)

lemma ParamOperation_backward_keeps_input_:
  "snd (ParamOperation_backward c s g) ''input_'' = s ''input_''"
  by (simp add: ParamOperation_backward_def Let_def split: sum.splits)

lemma backward_keeps_input_: "snd (backward c s g) ''input_'' = s ''input_''"
  by (simp add: backward_def Operation_backward_keeps_input_ ParamOperation_backward_keeps_input_)

lemma mangle_init_: "mangle ''ParamOperation'' ''__init_'' = ''_ParamOperation__init_''"
  by (simp add: mangle_def)

lemma mangle_init: "mangle ''ParamOperation'' ''__init__'' = ''__init__''"
  by (simp add: mangle_def)

lemma init_not_found:
  "super_getattr ''_ParamOperation__init_'' = Inl (AttributeError ''_ParamOperation__init_'')"
  by (simp add: super_getattr_def Operation_attrs_def object_attrs_def)

lemma ParamOperation_init_raises:
  "ParamOperation_init self p = Inl (AttributeError ''_ParamOperation__init_'')"
  by (simp add: ParamOperation_init_def mangle_init_ init_not_found)

lemma construct_Inr: "construct c args = Inr s \<Longrightarrow> s = Map.empty"
  by (cases "(c, args)" rule: construct.cases)
     (simp_all add: Operation_init_def Sigmoid_init_def Linear_init_def WeightMultiply_init_def
        BiasAdd_init_def ParamOperation_init_raises split: sum.splits if_splits)

text \<open>
  Hence no object obtained through the constructors and the two public methods ever
  carries an attribute \<open>input_\<close>.
\<close>

lemma reachable_input__unset: "reachable c s \<Longrightarrow> s ''input_'' = None"
proof (induction rule: reachable.induct)
  case (constructed c args s)
  then show ?case using construct_Inr by fastforce
next
  case (after_forward c s x)
  then show ?case by (simp add: forward_keeps_input_)
next
  case (after_backward c s g)
  then show ?case by (simp add: backward_keeps_input_)
qed

section \<open>forward on the concrete operations\<close>

text \<open>
  Claim C3. For each of the four concrete operations and every input array, \<open>forward\<close>
  on an object without an attribute \<open>input_\<close> raises \<open>AttributeError\<close> for that name:
  the input was stored under \<open>input\<close> (and stays stored), the hook reads \<open>input_\<close>. By
  \<open>reachable_input__unset\<close> every object the classes themselves produce is such an
  object.
\<close>

theorem forward_raises_AttributeError:
  "concrete c \<Longrightarrow> s ''input_'' = None \<Longrightarrow>
   forward c s x = (Inl (AttributeError ''input_''), s(''input'' \<mapsto> x))"
  by (simp add: forward_def Let_def output_hook_unset)

theorem forward_raises_AttributeError_witness:
  "concrete Sigmoid \<and> (Map.empty :: obj) ''input_'' = None \<and>
   forward Sigmoid Map.empty \<lparr>shape = [1, 2], data = [3, 4]\<rparr> =
     (Inl (AttributeError ''input_''), [''input'' \<mapsto> \<lparr>shape = [1, 2], data = [3, 4]\<rparr>])"
  using forward_raises_AttributeError [of Sigmoid Map.empty "\<lparr>shape = [1, 2], data = [3, 4]\<rparr>"]
  by simp

section \<open>Construction of parametric operations\<close>

text \<open>
  Claim C4. Constructing a \<open>WeightMultiply\<close> with any weight array, a \<open>BiasAdd\<close> with any
  parameter whose leading dimension is 1, or a \<open>ParamOperation\<close> itself raises
  \<open>AttributeError\<close> for the misspelt \<open>__init_\<close> (reported under its mangled name);
  \<open>ParamOperation.__init__\<close> raises it on
  every object and parameter, so \<open>self.param\<close> is never assigned.
\<close>

theorem ParamOperation_construction_raises:
  "construct WeightMultiply [W] = Inl (AttributeError ''_ParamOperation__init_'') \<and>
   (shape_at B 0 = Inr 1 \<longrightarrow> construct BiasAdd [B] = Inl (AttributeError ''_ParamOperation__init_'')) \<and>
   construct ParamOperation [p] = Inl (AttributeError ''_ParamOperation__init_'') \<and>
   ParamOperation_init self p = Inl (AttributeError ''_ParamOperation__init_'')"
  by (simp add: WeightMultiply_init_def BiasAdd_init_def ParamOperation_init_raises)

theorem ParamOperation_construction_raises_witness:
  "shape_at \<lparr>shape = [1, 3], data = [0, 0, 0]\<rparr> 0 = Inr 1 \<and>
   construct BiasAdd [\<lparr>shape = [1, 3], data = [0, 0, 0]\<rparr>] = Inl (AttributeError ''_ParamOperation__init_'') \<and>
   construct WeightMultiply [\<lparr>shape = [1, 1], data = [2]\<rparr>] = Inl (AttributeError ''_ParamOperation__init_'')"
  using ParamOperation_construction_raises
    [of "\<lparr>shape = [1, 1], data = [2]\<rparr>" "\<lparr>shape = [1, 3], data = [0, 0, 0]\<rparr>"]
  by (simp add: shape_at_def)

text \<open>
  Claim C9. The specification lets \<open>BiasAdd\<close> with a parameter of shape \<open>[1, 5]\<close> be
  constructed and rejects shape \<open>[2, 5]\<close> with an InvariantViolation. The code rejects
  \<open>[2, 5]\<close> as stated, but the construction with shape \<open>[1, 5]\<close> raises
  \<open>AttributeError\<close> after the assertion has passed.
\<close>

theorem BiasAdd_construction:
  "construct BiasAdd [\<lparr>shape = [1, 5], data = [0, 0, 0, 0, 0]\<rparr>] = Inl (AttributeError ''_ParamOperation__init_'') \<and>
   construct BiasAdd [\<lparr>shape = [2, 5], data = [0, 0, 0, 0, 0, 0, 0, 0, 0, 0]\<rparr>] = Inl InvariantViolation"
  by (simp add: BiasAdd_init_def ParamOperation_init_raises shape_at_def InvariantViolation_def)

section \<open>The forward/backward cycle\<close>

text \<open>
  Claim C1. The specification promises that \<open>backward(g)\<close> right after \<open>forward(x)\<close>
  succeeds and returns an array of the shape of \<open>x\<close>. On a freshly constructed \<open>Linear\<close>
  operation \<open>forward\<close> raises \<open>AttributeError\<close> and caches no output, and the
  following \<open>backward\<close> raises \<open>AttributeError\<close> as well, for the missing \<open>output\<close>.
\<close>

theorem forward_backward_cycle_fails:
  "construct Linear [] = Inr Map.empty \<and>
   forward Linear Map.empty \<lparr>shape = [2, 2], data = [1, 2, 3, 4]\<rparr> =
     (Inl (AttributeError ''input_''), [''input'' \<mapsto> \<lparr>shape = [2, 2], data = [1, 2, 3, 4]\<rparr>]) \<and>
   backward Linear [''input'' \<mapsto> \<lparr>shape = [2, 2], data = [1, 2, 3, 4]\<rparr>]
       \<lparr>shape = [2, 2], data = [1, 1, 1, 1]\<rparr> =
     (Inl (AttributeError ''output''), [''input'' \<mapsto> \<lparr>shape = [2, 2], data = [1, 2, 3, 4]\<rparr>])"
  by (simp add: Linear_init_def Operation_init_def forward_def Linear_output_def getattr_def
      backward_def Operation_backward_def)

subsection \<open>The check of the incoming gradient\<close>

lemma forward_caches_output:
  "forward c s x = (Inr y, s1) \<Longrightarrow> s1 ''output'' = Some y"
  by (auto simp: forward_def Let_def split: sum.splits)

lemma Operation_backward_mismatch:
  "s ''output'' = Some y \<Longrightarrow> shape g \<noteq> shape y \<Longrightarrow>
   Operation_backward c s g = (Inl (ShapeMismatch (shape g) (shape y)), s)"
  by (simp add: Operation_backward_def getattr_Some assert_same_shape_def ShapeMismatch_def)

lemma ParamOperation_backward_mismatch:
  "s ''output'' = Some y \<Longrightarrow> shape g \<noteq> shape y \<Longrightarrow>
   ParamOperation_backward c s g = (Inl (ShapeMismatch (shape g) (shape y)), s)"
  by (simp add: ParamOperation_backward_def getattr_Some assert_same_shape_def ShapeMismatch_def)

lemma backward_mismatch:
  "s ''output'' = Some y \<Longrightarrow> shape g \<noteq> shape y \<Longrightarrow>
   backward c s g = (Inl (ShapeMismatch (shape g) (shape y)), s)"
  by (simp add: backward_def Operation_backward_mismatch ParamOperation_backward_mismatch)

lemma reachable_output_unset: "reachable c s \<Longrightarrow> s ''output'' = None"
proof (induction rule: reachable.induct)
  case (constructed c args s)
  then show ?case using construct_Inr by fastforce
next
  case (after_forward c s x)
  have "\<exists>e. output_hook c (s(''input'' \<mapsto> x)) = Inl e"
  proof (cases "concrete c")
    case True
    moreover have "(s(''input'' \<mapsto> x)) ''input_'' = None"
      using reachable_input__unset [OF after_forward.hyps] by simp
    ultimately show ?thesis using output_hook_unset by blast
  next
    case False
    then show ?thesis by (cases c) simp_all
  qed
  then show ?case using after_forward.IH by (auto simp: forward_def Let_def)
next
  case (after_backward c s g)
  then show ?case
    by (simp add: backward_def Operation_backward_def ParamOperation_backward_def getattr_None)
qed

text \<open>
  On every object the classes produce, and for every gradient, the \<open>backward\<close> call
  that follows a \<open>forward\<close> call stops at the read of \<open>self.output\<close>, before the shapes
  are compared.
\<close>

lemma reachable_backward_after_forward:
  assumes "reachable c s"
  shows "backward c (snd (forward c s x)) g =
           (Inl (AttributeError ''output''), snd (forward c s x))"
proof -
  have "snd (forward c s x) ''output'' = None"
    using reachable_output_unset [OF reachable.after_forward [OF assms]] .
  then show ?thesis
    by (simp add: backward_def Operation_backward_def ParamOperation_backward_def getattr_None)
qed

text \<open>
  Claim C2. The specification has \<open>backward(g)\<close> after \<open>forward(x)\<close> fail with
  ShapeMismatch when \<open>g\<close> has another shape than the output of \<open>forward\<close>. Both
  \<open>backward\<close> bodies begin with that comparison (\<open>backward_mismatch\<close>), but it needs a
  cached output. On a freshly constructed \<open>Sigmoid\<close>, \<open>forward\<close> of an input of shape
  \<open>[1, 2]\<close> raises \<open>AttributeError\<close> and caches none, and \<open>backward\<close> of a gradient of
  shape \<open>[2]\<close> raises \<open>AttributeError\<close> for \<open>output\<close>, not the assertion.
\<close>

theorem backward_other_shape_not_ShapeMismatch:
  "construct Sigmoid [] = Inr Map.empty \<and>
   forward Sigmoid Map.empty \<lparr>shape = [1, 2], data = [3, 4]\<rparr> =
     (Inl (AttributeError ''input_''), [''input'' \<mapsto> \<lparr>shape = [1, 2], data = [3, 4]\<rparr>]) \<and>
   backward Sigmoid [''input'' \<mapsto> \<lparr>shape = [1, 2], data = [3, 4]\<rparr>] \<lparr>shape = [2], data = [1, 1]\<rparr> =
     (Inl (AttributeError ''output''), [''input'' \<mapsto> \<lparr>shape = [1, 2], data = [3, 4]\<rparr>])"
  by (simp add: Sigmoid_init_def Operation_init_def forward_def Sigmoid_output_def getattr_def
      backward_def Operation_backward_def)

section \<open>Sigmoid and Linear\<close>

text \<open>
  What the two hooks of \<open>Sigmoid\<close> compute once they find the attributes they read:
  \<open>1 / (1 + exp 0) = 1 / 2\<close> and \<open>1 / 2 * (1 - 1 / 2) * 1 = 1 / 4\<close>.
\<close>

lemma Sigmoid_hooks_at_zero:
  "Sigmoid_output [''input_'' \<mapsto> \<lparr>shape = [1, 1], data = [0]\<rparr>] = Inr \<lparr>shape = [1, 1], data = [1 / 2]\<rparr> \<and>
   Sigmoid_input_grad [''output'' \<mapsto> \<lparr>shape = [1, 1], data = [1 / 2]\<rparr>] \<lparr>shape = [1, 1], data = [1]\<rparr> =
     Inr \<lparr>shape = [1, 1], data = [1 / 4]\<rparr>"
  by (simp add: Sigmoid_output_def Sigmoid_input_grad_def getattr_def scalar_op_def np_exp_def
      np_multiply_def elementwise_def broadcast_shapes_def broadcast_to_def chunks_def size_of_def)

text \<open>
  Claim C5. The specification has \<open>Sigmoid\<close> return \<open>[[0.5]]\<close> for the input
  \<open>[[0.0]]\<close> and then \<open>[[0.25]]\<close> for the gradient \<open>[[1.0]]\<close>. On a freshly constructed
  \<open>Sigmoid\<close> the \<open>forward\<close> call raises \<open>AttributeError\<close> instead, and so does the
  \<open>backward\<close> call after it.
\<close>

theorem Sigmoid_zero_cycle:
  "construct Sigmoid [] = Inr Map.empty \<and>
   forward Sigmoid Map.empty \<lparr>shape = [1, 1], data = [0]\<rparr> =
     (Inl (AttributeError ''input_''), [''input'' \<mapsto> \<lparr>shape = [1, 1], data = [0]\<rparr>]) \<and>
   backward Sigmoid [''input'' \<mapsto> \<lparr>shape = [1, 1], data = [0]\<rparr>] \<lparr>shape = [1, 1], data = [1]\<rparr> =
     (Inl (AttributeError ''output''), [''input'' \<mapsto> \<lparr>shape = [1, 1], data = [0]\<rparr>])"
  by (simp add: Sigmoid_init_def Operation_init_def forward_def Sigmoid_output_def getattr_def
      backward_def Operation_backward_def)

text \<open>
  Claim C6. The specification has \<open>Linear\<close> return its input and its gradient
  unchanged. On a freshly constructed \<open>Linear\<close>, \<open>forward\<close> raises \<open>AttributeError\<close>
  for every input \<open>x\<close>, and the following \<open>backward\<close> raises it for every \<open>g\<close>.
\<close>

theorem Linear_forward_not_identity:
  "construct Linear [] = Inr Map.empty \<and>
   forward Linear Map.empty x = (Inl (AttributeError ''input_''), [''input'' \<mapsto> x]) \<and>
   backward Linear [''input'' \<mapsto> x] g = (Inl (AttributeError ''output''), [''input'' \<mapsto> x])"
  by (simp add: Linear_init_def Operation_init_def forward_def Linear_output_def getattr_def
      backward_def Operation_backward_def)

section \<open>Gradients of the parametric operations\<close>

text \<open>
  The input gradient of \<open>WeightMultiply\<close> is the product of the incoming gradient with
  the transposed parameter, of shape \<open>[batch, in_features]\<close>.
\<close>

lemma WeightMultiply_input_grad_product:
  assumes "s ''param'' = Some w" "shape w = [i, k]" "shape g = [b, k]"
  shows "\<exists>wt r. np_transpose10 w = Inr wt \<and> np_dot g wt = Inr r \<and>
           WeightMultiply_input_grad s g = Inr r \<and> shape r = [b, i]"
  using assms
  by (simp add: WeightMultiply_input_grad_def getattr_Some np_transpose10_def np_dot_def Let_def)

text \<open>
  Claim C7. With an input of shape \<open>[2, 3]\<close> cached by \<open>forward\<close> (under \<open>input\<close>), a
  parameter of shape \<open>[3, 4]\<close> and a gradient of shape \<open>[2, 4]\<close>, \<open>_input_grad\<close> is the
  product of the gradient with the transposed parameter, of shape \<open>[2, 3]\<close>, but
  \<open>_param_grad\<close> raises \<open>AttributeError\<close>: it reads \<open>input_\<close>, not the cached \<open>input\<close>.
\<close>

theorem WeightMultiply_grads:
  "WeightMultiply_input_grad
     [''input'' \<mapsto> \<lparr>shape = [2, 3], data = [1, 2, 3, 4, 5, 6]\<rparr>,
      ''param'' \<mapsto> \<lparr>shape = [3, 4], data = [1, 0, 0, 0, 0, 1, 0, 0, 0, 0, 1, 0]\<rparr>,
      ''output'' \<mapsto> \<lparr>shape = [2, 4], data = [1, 2, 3, 0, 4, 5, 6, 0]\<rparr>]
     \<lparr>shape = [2, 4], data = [1, 1, 1, 1, 1, 1, 1, 1]\<rparr>
   = Inr \<lparr>shape = [2, 3], data = [1, 1, 1, 1, 1, 1]\<rparr> \<and>
   WeightMultiply_param_grad
     [''input'' \<mapsto> \<lparr>shape = [2, 3], data = [1, 2, 3, 4, 5, 6]\<rparr>,
      ''param'' \<mapsto> \<lparr>shape = [3, 4], data = [1, 0, 0, 0, 0, 1, 0, 0, 0, 0, 1, 0]\<rparr>,
      ''output'' \<mapsto> \<lparr>shape = [2, 4], data = [1, 2, 3, 0, 4, 5, 6, 0]\<rparr>]
     \<lparr>shape = [2, 4], data = [1, 1, 1, 1, 1, 1, 1, 1]\<rparr>
   = Inl (AttributeError ''input_'')"
  apply (rule conjI)
   apply code_simp
  apply (simp add: WeightMultiply_param_grad_def getattr_def)
  done

lemma ones_times_shape15:
  "np_multiply \<lparr>shape = [1, 5], data = replicate 5 1\<rparr> \<lparr>shape = [4, 5], data = replicate 20 1\<rparr>
   = Inr \<lparr>shape = [4, 5], data = replicate 20 1\<rparr>"
  by code_simp

lemma sum_axis0_ones:
  "np_sum_axis0 \<lparr>shape = [4, 5], data = replicate 20 1\<rparr> = \<lparr>shape = [5], data = [4, 4, 4, 4, 4]\<rparr>"
  by code_simp

text \<open>
  Claim C8. For a \<open>BiasAdd\<close> object whose parameter has shape \<open>[1, 5]\<close>, \<open>_param_grad\<close>
  of a gradient of shape \<open>[4, 5]\<close> filled with ones is \<open>[[4, 4, 4, 4, 4]]\<close>, of shape
  \<open>[1, 5]\<close>: the gradient summed over the batch dimension. The hook reads neither the
  cached input nor the values of the parameter.
\<close>

theorem BiasAdd_param_grad_ones:
  assumes "s ''param'' = Some b" "shape b = [1, 5]"
  shows "BiasAdd_param_grad s \<lparr>shape = [4, 5], data = replicate 20 1\<rparr> =
           Inr \<lparr>shape = [1, 5], data = [4, 4, 4, 4, 4]\<rparr>"
proof -
  have o: "np_ones_like b = \<lparr>shape = [1, 5], data = replicate 5 1\<rparr>"
    using assms(2) by (simp add: np_ones_like_def size_of_def)
  have p: "getattr s ''param'' = Inr b"
    using assms(1) by (simp add: getattr_def)
  show ?thesis
    by (simp add: BiasAdd_param_grad_def p o ones_times_shape15
        sum_axis0_ones shape_at_def reshape2_def size_of_def del: One_nat_def)
qed

theorem BiasAdd_param_grad_ones_witness:
  "[''input'' \<mapsto> \<lparr>shape = [4, 5], data = replicate 20 0\<rparr>,
    ''param'' \<mapsto> \<lparr>shape = [1, 5], data = [1, 2, 3, 4, 5]\<rparr>] ''param'' = Some \<lparr>shape = [1, 5], data = [1, 2, 3, 4, 5]\<rparr> \<and>
   shape \<lparr>shape = [1, 5], data = [1, 2, 3, 4, 5]\<rparr> = [1, 5] \<and>
   BiasAdd_param_grad
     [''input'' \<mapsto> \<lparr>shape = [4, 5], data = replicate 20 0\<rparr>,
      ''param'' \<mapsto> \<lparr>shape = [1, 5], data = [1, 2, 3, 4, 5]\<rparr>]
     \<lparr>shape = [4, 5], data = replicate 20 1\<rparr> = Inr \<lparr>shape = [1, 5], data = [4, 4, 4, 4, 4]\<rparr>"
  using BiasAdd_param_grad_ones
    [of "[''input'' \<mapsto> \<lparr>shape = [4, 5], data = replicate 20 0\<rparr>,
          ''param'' \<mapsto> \<lparr>shape = [1, 5], data = [1, 2, 3, 4, 5]\<rparr>]"
        "\<lparr>shape = [1, 5], data = [1, 2, 3, 4, 5]\<rparr>"]
  by simp

section \<open>The check of the computed input gradient\<close>

text \<open>
  Claim C10. After the incoming gradient has passed the check against the cached output
  and \<open>_input_grad\<close> has returned \<open>ig\<close>: \<open>Operation.backward\<close> stores \<open>ig\<close> and raises
  the assertion of \<open>assert_same_shape\<close> when the shape of \<open>ig\<close> differs from the shape
  of the cached input; \<open>ParamOperation.backward\<close> returns \<open>ig\<close> as soon as
  \<open>_param_grad\<close> has returned, whatever the cached input is.
\<close>

theorem backward_input_grad_check_asymmetry:
  "(s ''output'' = Some out \<and> shape out = shape g \<and> input_grad_hook c s g = Inr ig \<and>
    s ''input'' = Some inp \<and> shape ig \<noteq> shape inp \<longrightarrow>
      Operation_backward c s g =
        (Inl (ShapeMismatch (shape ig) (shape inp)), s(''input_grad'' \<mapsto> ig))) \<and>
   (s ''output'' = Some out \<and> shape out = shape g \<and> input_grad_hook c s g = Inr ig \<and>
    param_grad_hook c (s(''input_grad'' \<mapsto> ig)) g = Inr pg \<longrightarrow>
      ParamOperation_backward c s g =
        (Inr ig, s(''input_grad'' \<mapsto> ig, ''param_grad'' \<mapsto> pg)))"
  by (simp add: Operation_backward_def ParamOperation_backward_def getattr_def
      assert_same_shape_def ShapeMismatch_def Let_def)

text \<open>
  The witness is one \<open>WeightMultiply\<close> object and one gradient: the cached input has
  shape \<open>[1, 1]\<close>, the computed input gradient shape \<open>[1, 2]\<close>. The body of
  \<open>Operation.backward\<close> rejects it, the body of \<open>ParamOperation.backward\<close> returns it.
\<close>

theorem backward_input_grad_check_asymmetry_witness:
  "[''input'' \<mapsto> \<lparr>shape = [1, 1], data = [5]\<rparr>,
      ''input_'' \<mapsto> \<lparr>shape = [1, 2], data = [1, 2]\<rparr>,
      ''param'' \<mapsto> \<lparr>shape = [2, 1], data = [3, 4]\<rparr>,
      ''output'' \<mapsto> \<lparr>shape = [1, 1], data = [11]\<rparr>] ''output'' = Some \<lparr>shape = [1, 1], data = [11]\<rparr> \<and>
   shape \<lparr>shape = [1, 1], data = [11]\<rparr> = shape \<lparr>shape = [1, 1], data = [1]\<rparr> \<and>
   input_grad_hook WeightMultiply
     [''input'' \<mapsto> \<lparr>shape = [1, 1], data = [5]\<rparr>,
      ''input_'' \<mapsto> \<lparr>shape = [1, 2], data = [1, 2]\<rparr>,
      ''param'' \<mapsto> \<lparr>shape = [2, 1], data = [3, 4]\<rparr>,
      ''output'' \<mapsto> \<lparr>shape = [1, 1], data = [11]\<rparr>]
     \<lparr>shape = [1, 1], data = [1]\<rparr> = Inr \<lparr>shape = [1, 2], data = [3, 4]\<rparr> \<and>
   [''input'' \<mapsto> \<lparr>shape = [1, 1], data = [5]\<rparr>,
      ''input_'' \<mapsto> \<lparr>shape = [1, 2], data = [1, 2]\<rparr>,
      ''param'' \<mapsto> \<lparr>shape = [2, 1], data = [3, 4]\<rparr>,
      ''output'' \<mapsto> \<lparr>shape = [1, 1], data = [11]\<rparr>] ''input'' = Some \<lparr>shape = [1, 1], data = [5]\<rparr> \<and>
   shape \<lparr>shape = [1, 2], data = [3, 4]\<rparr> \<noteq> shape \<lparr>shape = [1, 1], data = [5]\<rparr> \<and>
   param_grad_hook WeightMultiply
     [''input'' \<mapsto> \<lparr>shape = [1, 1], data = [5]\<rparr>,
      ''input_'' \<mapsto> \<lparr>shape = [1, 2], data = [1, 2]\<rparr>,
      ''param'' \<mapsto> \<lparr>shape = [2, 1], data = [3, 4]\<rparr>,
      ''output'' \<mapsto> \<lparr>shape = [1, 1], data = [11]\<rparr>,
      ''input_grad'' \<mapsto> \<lparr>shape = [1, 2], data = [3, 4]\<rparr>]
     \<lparr>shape = [1, 1], data = [1]\<rparr> = Inr \<lparr>shape = [2, 1], data = [1, 2]\<rparr> \<and>
   Operation_backward WeightMultiply
     [''input'' \<mapsto> \<lparr>shape = [1, 1], data = [5]\<rparr>,
      ''input_'' \<mapsto> \<lparr>shape = [1, 2], data = [1, 2]\<rparr>,
      ''param'' \<mapsto> \<lparr>shape = [2, 1], data = [3, 4]\<rparr>,
      ''output'' \<mapsto> \<lparr>shape = [1, 1], data = [11]\<rparr>]
     \<lparr>shape = [1, 1], data = [1]\<rparr> =
     (Inl (ShapeMismatch [1, 2] [1, 1]),
      [''input'' \<mapsto> \<lparr>shape = [1, 1], data = [5]\<rparr>,
      ''input_'' \<mapsto> \<lparr>shape = [1, 2], data = [1, 2]\<rparr>,
      ''param'' \<mapsto> \<lparr>shape = [2, 1], data = [3, 4]\<rparr>,
      ''output'' \<mapsto> \<lparr>shape = [1, 1], data = [11]\<rparr>,
      ''input_grad'' \<mapsto> \<lparr>shape = [1, 2], data = [3, 4]\<rparr>]) \<and>
   ParamOperation_backward WeightMultiply
     [''input'' \<mapsto> \<lparr>shape = [1, 1], data = [5]\<rparr>,
      ''input_'' \<mapsto> \<lparr>shape = [1, 2], data = [1, 2]\<rparr>,
      ''param'' \<mapsto> \<lparr>shape = [2, 1], data = [3, 4]\<rparr>,
      ''output'' \<mapsto> \<lparr>shape = [1, 1], data = [11]\<rparr>]
     \<lparr>shape = [1, 1], data = [1]\<rparr> =
     (Inr \<lparr>shape = [1, 2], data = [3, 4]\<rparr>,
      [''input'' \<mapsto> \<lparr>shape = [1, 1], data = [5]\<rparr>,
      ''input_'' \<mapsto> \<lparr>shape = [1, 2], data = [1, 2]\<rparr>,
      ''param'' \<mapsto> \<lparr>shape = [2, 1], data = [3, 4]\<rparr>,
      ''output'' \<mapsto> \<lparr>shape = [1, 1], data = [11]\<rparr>,
      ''input_grad'' \<mapsto> \<lparr>shape = [1, 2], data = [3, 4]\<rparr>,
      ''param_grad'' \<mapsto> \<lparr>shape = [2, 1], data = [1, 2]\<rparr>])"
proof -
  let ?s = "[''input'' \<mapsto> \<lparr>shape = [1, 1], data = [5]\<rparr>,
      ''input_'' \<mapsto> \<lparr>shape = [1, 2], data = [1, 2]\<rparr>,
      ''param'' \<mapsto> \<lparr>shape = [2, 1], data = [3, 4]\<rparr>,
      ''output'' \<mapsto> \<lparr>shape = [1, 1], data = [11]\<rparr>]"
  let ?g = "\<lparr>shape = [1, 1], data = [1]\<rparr>"
  let ?ig = "\<lparr>shape = [1, 2], data = [3, 4]\<rparr>"
  let ?pg = "\<lparr>shape = [2, 1], data = [1, 2]\<rparr>"
  have o: "?s ''output'' = Some \<lparr>shape = [1, 1], data = [11]\<rparr>"
    by simp
  have i: "?s ''input'' = Some \<lparr>shape = [1, 1], data = [5]\<rparr>"
    by simp
  have h: "input_grad_hook WeightMultiply ?s ?g = Inr ?ig"
    by code_simp
  have p: "param_grad_hook WeightMultiply (?s(''input_grad'' \<mapsto> ?ig)) ?g = Inr ?pg"
    by code_simp
  show ?thesis
    using o i h p
      backward_input_grad_check_asymmetry
        [of ?s "\<lparr>shape = [1, 1], data = [11]\<rparr>" ?g WeightMultiply ?ig
            "\<lparr>shape = [1, 1], data = [5]\<rparr>" ?pg]
    by simp
qed

end
